theory Spec2Isabelle
  imports Complex_Main
begin

section \<open>JavaScript values used by the sources\<close>

text \<open>
  An optional string (\<^verbatim>\<open>string | undefined\<close>, \<^verbatim>\<open>string | null\<close>) is a
  \<^typ>\<open>string option\<close>. JavaScript tests such a value for truthiness: \<^verbatim>\<open>undefined\<close>,
  \<^verbatim>\<open>null\<close> and the empty string are falsy, every other string is truthy.
\<close>

definition truthy :: "string option \<Rightarrow> bool" where
  "truthy v = (case v of None \<Rightarrow> False | Some s \<Rightarrow> s \<noteq> [])"

text \<open>
  A tool input has the source type \<^verbatim>\<open>unknown\<close>: any JSON value.
\<close>

datatype json =
    JNull
  | JBool bool
  | JNum int
  | JStr string
  | JArr "json list"
  | JObj "(string \<times> json) list"

text \<open>
  \<^verbatim>\<open>inp.key\<close> on a value that passed \<^verbatim>\<open>typeof input === 'object'\<close>. The sources read
  these fields \<^verbatim>\<open>as string\<close> (the tool schemas of the agent SDK declare them as strings),
  and the model covers tool inputs whose fields have that declared type: a string field is
  read as it is and a missing one as the empty (falsy) string. A field of another JSON
  type is outside the model and is read as empty too, where the code would interpolate the
  value (\<^verbatim>\<open>Glob\<close>, \<^verbatim>\<open>Grep\<close>, \<^verbatim>\<open>Task\<close>) or raise a \<^verbatim>\<open>TypeError\<close> from \<^verbatim>\<open>shortenPath\<close>,
  \<^verbatim>\<open>truncate\<close> or \<^verbatim>\<open>isImagePath\<close> (the other tools). A later duplicate key of an object
  wins, as in \<^verbatim>\<open>JSON.parse\<close>.
\<close>

fun str_field :: "json \<Rightarrow> string \<Rightarrow> string" where
  "str_field (JObj kvs) k =
     (case map_of (rev kvs) k of Some (JStr s) \<Rightarrow> s | _ \<Rightarrow> [])"
| "str_field _ k = []"

text \<open>\<^verbatim>\<open>input && typeof input === 'object'\<close>: objects and arrays only.\<close>

fun is_object :: "json option \<Rightarrow> bool" where
  "is_object (Some (JObj kvs)) = True"
| "is_object (Some (JArr xs)) = True"
| "is_object _ = False"

text \<open>\<^verbatim>\<open>s.split(c)\<close> for a one-character separator: never the empty list.\<close>

fun split_on :: "char \<Rightarrow> string \<Rightarrow> string list" where
  "split_on c [] = [[]]"
| "split_on c (x # xs) =
     (if x = c then [] # split_on c xs
      else (case split_on c xs of
              [] \<Rightarrow> [[x]]
            | p # ps \<Rightarrow> (x # p) # ps))"

text \<open>\<^verbatim>\<open>parts.join(sep)\<close>.\<close>

fun join :: "string \<Rightarrow> string list \<Rightarrow> string" where
  "join sep [] = []"
| "join sep [x] = x"
| "join sep (x # y # ys) = x @ sep @ join sep (y # ys)"

section \<open>Card state (src/feishu/card-builder.ts)\<close>

datatype CardStatus = Thinking | Running | Complete | Error

datatype ToolStatus = ToolRunning | ToolDone

record ToolCall =
  name :: string
  detail :: string
  tool_status :: ToolStatus

record CardState =
  status :: CardStatus
  userPrompt :: string
  responseText :: string
  toolCalls :: "ToolCall list"
  costUsd :: "real option"
  durationMs :: "real option"
  errorMessage :: "string option"

section \<open>Agent events (SDKMessage, src/claude/executor.ts)\<close>

record ContentBlock =
  block_type :: string
  block_text :: "string option"
  block_name :: "string option"
  block_id :: "string option"
  block_input :: "json option"

record Delta =
  delta_type :: string
  delta_text :: "string option"

record StreamEvent =
  event_type :: string
  event_index :: "nat option"
  event_delta :: "Delta option"
  content_block :: "ContentBlock option"

text \<open>
  \<open>msg_content\<close> is \<^verbatim>\<open>message?.content\<close>: \<open>None\<close> when the message or its content is
  missing. \<open>parent_tool_use_id\<close> is \<open>None\<close> for both \<^verbatim>\<open>null\<close> and \<^verbatim>\<open>undefined\<close>, which the
  sources never tell apart.
\<close>

record SDKMessage =
  msg_type :: string
  subtype :: "string option"
  session_id :: "string option"
  msg_content :: "ContentBlock list option"
  duration_ms :: "real option"
  total_cost_usd :: "real option"
  result :: "string option"
  errors :: "string list option"
  event :: "StreamEvent option"
  parent_tool_use_id :: "string option"

section \<open>StreamProcessor (src/claude/stream-processor.ts)\<close>

record StreamProcessor =
  sp_userPrompt :: string
  sp_responseText :: string
  sp_toolCalls :: "ToolCall list"
  currentToolName :: "string option"
  sp_sessionId :: "string option"
  sp_costUsd :: "real option"
  sp_durationMs :: "real option"
  imagePaths :: "string list"

definition newStreamProcessor :: "string \<Rightarrow> StreamProcessor" where
  "newStreamProcessor prompt =
     \<lparr> sp_userPrompt = prompt, sp_responseText = [], sp_toolCalls = [],
       currentToolName = None, sp_sessionId = None, sp_costUsd = None,
       sp_durationMs = None, imagePaths = [] \<rparr>"

definition IMAGE_EXTENSIONS :: "string list" where
  "IMAGE_EXTENSIONS =
     [''.png'', ''.jpg'', ''.jpeg'', ''.gif'', ''.webp'', ''.bmp'', ''.svg'', ''.tiff'']"

text \<open>\<^verbatim>\<open>toLowerCase\<close> on the ASCII letters (a \<^typ>\<open>char\<close> is a byte).\<close>

definition lower_char :: "char \<Rightarrow> char" where
  "lower_char c =
     (if (65::nat) \<le> of_char c \<and> of_char c \<le> (90::nat) then char_of (of_char c + (32::nat)) else c)"

text \<open>
  \<^verbatim>\<open>filePath.slice(filePath.lastIndexOf('.'))\<close>: the suffix from the last dot on; without a
  dot \<^verbatim>\<open>lastIndexOf\<close> is \<open>-1\<close> and the slice is the last character.
\<close>

fun from_last_dot :: "string \<Rightarrow> string option" where
  "from_last_dot [] = None"
| "from_last_dot (x # xs) =
     (case from_last_dot xs of
        Some r \<Rightarrow> Some r
      | None \<Rightarrow> (if x = CHR ''.'' then Some (x # xs) else None))"

definition isImagePath :: "string \<Rightarrow> bool" where
  "isImagePath filePath =
     (let ext = (case from_last_dot filePath of
                   Some r \<Rightarrow> r
                 | None \<Rightarrow> drop (length filePath - 1) filePath)
      in map lower_char ext \<in> set IMAGE_EXTENSIONS)"

definition shortenPath :: "string \<Rightarrow> string" where
  "shortenPath filePath =
     (let parts = split_on CHR ''/'' filePath
      in if length parts \<le> 3 then filePath
         else ''.../'' @ join ''/'' (drop (length parts - 2) parts))"

definition truncate :: "string \<Rightarrow> nat \<Rightarrow> string" where
  "truncate text mx = (if length text \<le> mx then text else take mx text @ ''...'')"

definition backticked :: "string \<Rightarrow> string" where
  "backticked s = [CHR 0x60] @ s @ [CHR 0x60]"

definition formatToolDetail :: "string \<Rightarrow> json option \<Rightarrow> string" where
  "formatToolDetail nm input =
     (if \<not> is_object input then []
      else
        let inp = the input in
        if nm = ''Read'' \<or> nm = ''Write'' \<or> nm = ''Edit'' then
          (if str_field inp ''file_path'' \<noteq> []
           then backticked (shortenPath (str_field inp ''file_path'')) else [])
        else if nm = ''Bash'' then
          (if str_field inp ''command'' \<noteq> []
           then backticked (truncate (str_field inp ''command'') 60) else [])
        else if nm = ''Glob'' \<or> nm = ''Grep'' then
          (if str_field inp ''pattern'' \<noteq> []
           then backticked (str_field inp ''pattern'') else [])
        else if nm = ''WebSearch'' then
          (if str_field inp ''query'' \<noteq> []
           then [CHR 0x22] @ truncate (str_field inp ''query'') 50 @ [CHR 0x22] else [])
        else if nm = ''WebFetch'' then
          (if str_field inp ''url'' \<noteq> []
           then backticked (truncate (str_field inp ''url'') 60) else [])
        else if nm = ''Task'' then str_field inp ''description''
        else [])"

text \<open>
  \<^verbatim>\<open>toolCalls.find(t => t.name === currentToolName && t.status === 'running')\<close> followed by
  \<^verbatim>\<open>tool.status = 'done'\<close>: the first such entry is closed, in place.
\<close>

fun markFirstRunning :: "string \<Rightarrow> ToolCall list \<Rightarrow> ToolCall list" where
  "markFirstRunning nm [] = []"
| "markFirstRunning nm (t # ts) =
     (if name t = nm \<and> tool_status t = ToolRunning
      then t\<lparr>tool_status := ToolDone\<rparr> # ts
      else t # markFirstRunning nm ts)"

definition completeCurrentTool :: "StreamProcessor \<Rightarrow> StreamProcessor" where
  "completeCurrentTool p =
     (if truthy (currentToolName p)
      then p\<lparr> sp_toolCalls := markFirstRunning (the (currentToolName p)) (sp_toolCalls p),
              currentToolName := None \<rparr>
      else p)"

text \<open>\<^verbatim>\<open>Set.add\<close> on a set kept in insertion order.\<close>

definition set_add :: "string \<Rightarrow> string list \<Rightarrow> string list" where
  "set_add x xs = (if x \<in> set xs then xs else xs @ [x])"

definition addToolCall :: "string \<Rightarrow> json option \<Rightarrow> StreamProcessor \<Rightarrow> StreamProcessor" where
  "addToolCall nm input p0 =
     (let p1 = completeCurrentTool p0;
          p2 = p1\<lparr> currentToolName := Some nm,
                   sp_toolCalls := sp_toolCalls p1 @
                     [\<lparr> name = nm, detail = formatToolDetail nm input,
                        tool_status = ToolRunning \<rparr>] \<rparr>
      in if nm = ''Write'' \<and> is_object input
            \<and> str_field (the input) ''file_path'' \<noteq> []
            \<and> isImagePath (str_field (the input) ''file_path'')
         then p2\<lparr> imagePaths := set_add (str_field (the input) ''file_path'') (imagePaths p2) \<rparr>
         else p2)"

text \<open>One iteration of the loop over the content blocks of an assistant message.\<close>

definition processBlock :: "string option \<Rightarrow> StreamProcessor \<Rightarrow> ContentBlock \<Rightarrow> StreamProcessor" where
  "processBlock parent p b =
     (if block_type b = ''text'' \<and> truthy (block_text b) then
        (if parent = None then p\<lparr> sp_responseText := the (block_text b) \<rparr> else p)
      else if block_type b = ''tool_use'' \<and> truthy (block_name b) then
        addToolCall (the (block_name b)) (block_input b) p
      else if block_type b = ''tool_result'' then completeCurrentTool p
      else p)"

definition processAssistantMessage :: "SDKMessage \<Rightarrow> StreamProcessor \<Rightarrow> StreamProcessor" where
  "processAssistantMessage m p =
     (case msg_content m of
        None \<Rightarrow> p
      | Some blocks \<Rightarrow> foldl (processBlock (parent_tool_use_id m)) p blocks)"

definition processStreamEvent :: "SDKMessage \<Rightarrow> StreamProcessor \<Rightarrow> StreamProcessor" where
  "processStreamEvent m p =
     (case event m of
        None \<Rightarrow> p
      | Some ev \<Rightarrow>
          if parent_tool_use_id m \<noteq> None then p
          else if event_type ev = ''content_block_start'' then
            (case content_block ev of
               None \<Rightarrow> p
             | Some b \<Rightarrow>
                 if block_type b = ''tool_use'' \<and> truthy (block_name b)
                 then addToolCall (the (block_name b)) None p else p)
          else if event_type ev = ''content_block_delta'' then
            (case event_delta ev of
               None \<Rightarrow> p
             | Some d \<Rightarrow>
                 if delta_type d = ''text_delta'' \<and> truthy (delta_text d)
                 then p\<lparr> sp_responseText := sp_responseText p @ the (delta_text d) \<rparr> else p)
          else p)"

text \<open>
  \<^verbatim>\<open>message.errors?.join('; ') || `Ended with: ${message.subtype}`\<close>: the joined errors
  when that string is truthy, else the fallback; a missing subtype prints as
  \<^verbatim>\<open>undefined\<close>.
\<close>

definition resultErrorMessage :: "SDKMessage \<Rightarrow> string" where
  "resultErrorMessage m =
     (let joined = (case errors m of None \<Rightarrow> None | Some es \<Rightarrow> Some (join ''; '' es))
      in if truthy joined then the joined
         else ''Ended with: '' @ (case subtype m of None \<Rightarrow> ''undefined'' | Some s \<Rightarrow> s))"

definition processResultMessage :: "SDKMessage \<Rightarrow> StreamProcessor \<Rightarrow> CardState \<times> StreamProcessor" where
  "processResultMessage m p0 =
     (let p = p0\<lparr> sp_costUsd := total_cost_usd m, sp_durationMs := duration_ms m,
                  sp_toolCalls := map (\<lambda>t. t\<lparr>tool_status := ToolDone\<rparr>) (sp_toolCalls p0) \<rparr>;
          isError = (subtype m \<noteq> Some ''success'')
      in (\<lparr> status = (if isError then Error else Complete),
            userPrompt = sp_userPrompt p,
            responseText = (if truthy (result m) then the (result m) else sp_responseText p),
            toolCalls = sp_toolCalls p,
            costUsd = sp_costUsd p,
            durationMs = sp_durationMs p,
            errorMessage = (if isError then Some (resultErrorMessage m) else None) \<rparr>, p))"

text \<open>
  \<^verbatim>\<open>processMessage\<close> returns the snapshot; the processor it leaves behind is the second
  component.
\<close>

definition processMessage :: "SDKMessage \<Rightarrow> StreamProcessor \<Rightarrow> CardState \<times> StreamProcessor" where
  "processMessage m p0 =
     (let p1 = (if truthy (session_id m) \<and> \<not> truthy (sp_sessionId p0)
                then p0\<lparr> sp_sessionId := session_id m \<rparr> else p0)
      in if msg_type m = ''result'' then processResultMessage m p1
         else
           let p2 = (if msg_type m = ''assistant'' then processAssistantMessage m p1
                     else if msg_type m = ''stream_event'' then processStreamEvent m p1
                     else p1);
               hasActiveTools = list_ex (\<lambda>t. tool_status t = ToolRunning) (sp_toolCalls p2)
           in (\<lparr> status = (if hasActiveTools then Running
                            else if sp_responseText p2 \<noteq> [] then Running else Thinking),
                 userPrompt = sp_userPrompt p2,
                 responseText = sp_responseText p2,
                 toolCalls = sp_toolCalls p2,
                 costUsd = sp_costUsd p2,
                 durationMs = sp_durationMs p2,
                 errorMessage = None \<rparr>, p2))"

text \<open>
  Folding a sequence of events: the snapshots returned, in order, and the processor left
  behind.
\<close>

fun processAll :: "SDKMessage list \<Rightarrow> StreamProcessor \<Rightarrow> CardState list \<times> StreamProcessor" where
  "processAll [] p = ([], p)"
| "processAll (m # ms) p =
     (let (snap, p') = processMessage m p;
          (snaps, p'') = processAll ms p'
      in (snap # snaps, p''))"

definition getSessionId :: "StreamProcessor \<Rightarrow> string option" where
  "getSessionId p = sp_sessionId p"

definition getImagePaths :: "StreamProcessor \<Rightarrow> string list" where
  "getImagePaths p = imagePaths p"

text \<open>
  Builders for events, after the \<^verbatim>\<open>msg\<close> helper of tests/stream-processor.test.ts: an
  event of a given type with every optional field missing, and content blocks.
\<close>

definition sdkMessage :: "string \<Rightarrow> SDKMessage" where
  "sdkMessage ty =
     \<lparr> msg_type = ty, subtype = None, session_id = None, msg_content = None,
       duration_ms = None, total_cost_usd = None, result = None, errors = None,
       event = None, parent_tool_use_id = None \<rparr>"

definition textBlock :: "string \<Rightarrow> ContentBlock" where
  "textBlock t =
     \<lparr> block_type = ''text'', block_text = Some t, block_name = None, block_id = None,
       block_input = None \<rparr>"

definition toolUseBlock :: "string option \<Rightarrow> string \<Rightarrow> json option \<Rightarrow> ContentBlock" where
  "toolUseBlock i nm inp =
     \<lparr> block_type = ''tool_use'', block_text = None, block_name = Some nm, block_id = i,
       block_input = inp \<rparr>"

definition toolResultBlock :: ContentBlock where
  "toolResultBlock =
     \<lparr> block_type = ''tool_result'', block_text = None, block_name = None, block_id = None,
       block_input = None \<rparr>"

definition assistantMessage :: "string option \<Rightarrow> ContentBlock list \<Rightarrow> SDKMessage" where
  "assistantMessage parent blocks =
     (sdkMessage ''assistant'')\<lparr> msg_content := Some blocks, parent_tool_use_id := parent \<rparr>"

definition textDeltaEvent :: "string option \<Rightarrow> string \<Rightarrow> SDKMessage" where
  "textDeltaEvent parent t =
     (sdkMessage ''stream_event'')
       \<lparr> event := Some \<lparr> event_type = ''content_block_delta'', event_index = None,
                         event_delta = Some \<lparr> delta_type = ''text_delta'', delta_text = Some t \<rparr>,
                         content_block = None \<rparr>,
         parent_tool_use_id := parent \<rparr>"

text \<open>
  The event of the test \<^verbatim>\<open>detects AskUserQuestion and sets waiting_for_input\<close>
  (tests/stream-processor.test.ts), with the session id the test helper adds.
\<close>

definition askUserQuestionInput :: json where
  "askUserQuestionInput =
     JObj [(''questions'', JArr [JObj
       [(''question'', JStr ''Which option?''),
        (''header'', JStr ''Choice''),
        (''options'', JArr
           [JObj [(''label'', JStr ''A''), (''description'', JStr ''Option A'')],
            JObj [(''label'', JStr ''B''), (''description'', JStr ''Option B'')]]),
        (''multiSelect'', JBool False)]])]"

definition askUserQuestionMessage :: SDKMessage where
  "askUserQuestionMessage =
     (assistantMessage None
        [toolUseBlock (Some ''tool-q1'') ''AskUserQuestion'' (Some askUserQuestionInput)])
       \<lparr> session_id := Some ''sess-1'' \<rparr>"

section \<open>SessionManager (src/claude/session-manager.ts)\<close>

text \<open>
  Times are the milliseconds of \<^verbatim>\<open>Date.now()\<close>; every operation that reads the clock takes
  the reading as its argument \<open>now\<close>. The sessions are a \<^verbatim>\<open>Map\<close> from the key to a mutable
  \<^verbatim>\<open>UserSession\<close> object; an operation returns the manager it leaves behind.
\<close>

record UserSession =
  sessionId :: "string option"
  workingDirectory :: "string option"
  lastUsed :: int

record SessionManager =
  sessions :: "string \<rightharpoonup> UserSession"
  defaultWorkingDirectory :: "string option"

definition SESSION_TTL_MS :: int where
  "SESSION_TTL_MS = 24 * 60 * 60 * 1000"

definition newSessionManager :: "string option \<Rightarrow> SessionManager" where
  "newSessionManager dflt = \<lparr> sessions = Map.empty, defaultWorkingDirectory = dflt \<rparr>"

definition getSession :: "int \<Rightarrow> string \<Rightarrow> SessionManager \<Rightarrow> UserSession \<times> SessionManager" where
  "getSession now userId sm =
     (let session = (case sessions sm userId of
                       None \<Rightarrow> \<lparr> sessionId = None,
                                 workingDirectory = defaultWorkingDirectory sm,
                                 lastUsed = now \<rparr>
                     | Some s \<Rightarrow> s);
          session' = session\<lparr> lastUsed := now \<rparr>
      in (session', sm\<lparr> sessions := (sessions sm)(userId \<mapsto> session') \<rparr>))"

definition setSessionId :: "int \<Rightarrow> string \<Rightarrow> string \<Rightarrow> SessionManager \<Rightarrow> SessionManager" where
  "setSessionId now userId sid sm =
     (let (session, sm1) = getSession now userId sm
      in sm1\<lparr> sessions := (sessions sm1)(userId \<mapsto> session\<lparr> sessionId := Some sid \<rparr>) \<rparr>)"

definition setWorkingDirectory :: "int \<Rightarrow> string \<Rightarrow> string \<Rightarrow> SessionManager \<Rightarrow> SessionManager" where
  "setWorkingDirectory now userId directory sm =
     (let (session, sm1) = getSession now userId sm;
          session1 = (if workingDirectory session \<noteq> Some directory \<and> truthy (sessionId session)
                      then session\<lparr> sessionId := None \<rparr> else session);
          session2 = session1\<lparr> workingDirectory := Some directory \<rparr>
      in sm1\<lparr> sessions := (sessions sm1)(userId \<mapsto> session2) \<rparr>)"

definition resetSession :: "string \<Rightarrow> SessionManager \<Rightarrow> SessionManager" where
  "resetSession userId sm =
     (case sessions sm userId of
        None \<Rightarrow> sm
      | Some session \<Rightarrow>
          sm\<lparr> sessions := (sessions sm)(userId \<mapsto> session\<lparr> sessionId := None \<rparr>) \<rparr>)"

definition hasWorkingDirectory :: "int \<Rightarrow> string \<Rightarrow> SessionManager \<Rightarrow> bool \<times> SessionManager" where
  "hasWorkingDirectory now userId sm =
     (let (session, sm1) = getSession now userId sm
      in (truthy (workingDirectory session), sm1))"

definition cleanupExpired :: "int \<Rightarrow> SessionManager \<Rightarrow> SessionManager" where
  "cleanupExpired now sm =
     sm\<lparr> sessions := (\<lambda>userId.
            case sessions sm userId of
              None \<Rightarrow> None
            | Some session \<Rightarrow>
                if now - lastUsed session > SESSION_TTL_MS then None else Some session) \<rparr>"

section \<open>RateLimiter (src/bridge/rate-limiter.ts)\<close>

text \<open>
  Modelled from the spec: \<^verbatim>\<open>src/bridge/rate-limiter.ts\<close> is not among the sources at hand
  (only its test file is), so the limiter follows section 4.2 of the specification. The first
  call in a quiescent period executes its thunk immediately and starts the interval window;
  a call arriving while a window is open is not executed, its thunk becomes the pending
  one and replaces an earlier pending thunk; when the window elapses a pending thunk
  executes and restarts the window, and without one the limiter goes idle; \<^verbatim>\<open>flush\<close>
  executes a pending thunk at once, \<^verbatim>\<open>cancel\<close> discards it.

  Time is in milliseconds. \<open>windowEnd\<close> is the end of the open window (\<open>None\<close> when the
  limiter is quiescent), and \<open>executed\<close> logs each executed thunk with the time of its
  execution, oldest first. A window that opened at \<open>t\<close> has elapsed from \<open>t + interval\<close> on
  (the test \<^verbatim>\<open>allows call after interval passes\<close>).
\<close>

record 'f RateLimiter =
  rl_interval :: nat
  windowEnd :: "nat option"
  pending :: "'f option"
  executed :: "(nat \<times> 'f) list"

definition newRateLimiter :: "nat \<Rightarrow> 'f RateLimiter" where
  "newRateLimiter w = \<lparr> rl_interval = w, windowEnd = None, pending = None, executed = [] \<rparr>"

text \<open>
  Modelled from the spec: the passing of time up to \<open>t\<close>. A window that has elapsed by then
  runs the pending thunk at the moment it elapsed and restarts; the restarted window has
  no pending thunk, so the limiter goes idle if that one has elapsed by \<open>t\<close> as well.
\<close>

definition elapse :: "nat \<Rightarrow> 'f RateLimiter \<Rightarrow> 'f RateLimiter" where
  "elapse t rl =
     (case windowEnd rl of
        None \<Rightarrow> rl
      | Some e \<Rightarrow>
          if t < e then rl
          else (case pending rl of
                  None \<Rightarrow> rl\<lparr> windowEnd := None \<rparr>
                | Some f \<Rightarrow>
                    rl\<lparr> executed := executed rl @ [(e, f)], pending := None,
                        windowEnd := (if t < e + rl_interval rl
                                      then Some (e + rl_interval rl) else None) \<rparr>))"

text \<open>Modelled from the spec: \<^verbatim>\<open>schedule(thunk)\<close>, called at time \<open>t\<close>.\<close>

definition schedule :: "nat \<Rightarrow> 'f \<Rightarrow> 'f RateLimiter \<Rightarrow> 'f RateLimiter" where
  "schedule t f rl0 =
     (let rl = elapse t rl0
      in case windowEnd rl of
           None \<Rightarrow> rl\<lparr> executed := executed rl @ [(t, f)],
                       windowEnd := Some (t + rl_interval rl) \<rparr>
         | Some e \<Rightarrow> rl\<lparr> pending := Some f \<rparr>)"

section \<open>MessageBridge (src/bridge/message-bridge.ts)\<close>

subsection \<open>Messages, cards and the bridge's state\<close>

record IncomingMessage =
  userId :: string
  chatId :: string
  msg_text :: string
  imageKey :: "string option"
  messageId :: string

text \<open>
  The cards are kept as the arguments of their builders (\<^verbatim>\<open>buildTextCard\<close>,
  \<^verbatim>\<open>buildHelpCard\<close>, \<^verbatim>\<open>buildStatusCard\<close>, \<^verbatim>\<open>buildCard\<close>); their JSON is the card
  builder's business. The titles are written without their leading emoji. \<open>outbox\<close> lists
  the calls made to the sender's \<^verbatim>\<open>sendCard\<close> and \<^verbatim>\<open>updateCard\<close>, oldest first.
\<close>

datatype Card =
    TextCard string string string
  | HelpCard
  | StatusCard string "string option" "string option" bool
  | StateCard CardState

datatype Outgoing = SendCard string Card | UpdateCard string Card

record RunningTask =
  abortController :: nat
  startTime :: int

text \<open>
  An \<^verbatim>\<open>AbortController\<close> and the handle of a \<^verbatim>\<open>setTimeout\<close> are numbers drawn from
  \<open>nextId\<close>. \<open>aborted\<close> holds the controllers whose signal is aborted; \<open>timers\<close> the armed
  task timeouts, each with its handle, the time it is due and the controller it aborts;
  \<open>files\<close> the staged image files on disk; \<open>clock\<close> is \<^verbatim>\<open>Date.now()\<close>.
\<close>

record Bridge =
  sessionManager :: SessionManager
  runningTasks :: "string \<rightharpoonup> RunningTask"
  timers :: "(nat \<times> int \<times> nat) list"
  aborted :: "nat set"
  nextId :: nat
  files :: "string set"
  outbox :: "Outgoing list"
  clock :: int

definition TASK_TIMEOUT_MS :: int where
  "TASK_TIMEOUT_MS = 10 * 60 * 1000"

definition newBridge :: "string option \<Rightarrow> Bridge" where
  "newBridge dflt =
     \<lparr> sessionManager = newSessionManager dflt, runningTasks = Map.empty, timers = [],
       aborted = {}, nextId = 0, files = {}, outbox = [], clock = 0 \<rparr>"

definition sendCard :: "string \<Rightarrow> Card \<Rightarrow> Bridge \<Rightarrow> Bridge" where
  "sendCard chat crd b = b\<lparr> outbox := outbox b @ [SendCard chat crd] \<rparr>"

definition updateCard :: "string \<Rightarrow> Card \<Rightarrow> Bridge \<Rightarrow> Bridge" where
  "updateCard mid crd b = b\<lparr> outbox := outbox b @ [UpdateCard mid crd] \<rparr>"

text \<open>\<^verbatim>\<open>clearTimeout(timeoutId)\<close>.\<close>

definition clearTimeout :: "nat \<Rightarrow> Bridge \<Rightarrow> Bridge" where
  "clearTimeout tid b = b\<lparr> timers := filter (\<lambda>(i, due, ctrl). i \<noteq> tid) (timers b) \<rparr>"

text \<open>
  Time passes up to \<open>t\<close>: every armed timeout that is due by then runs its callback,
  \<^verbatim>\<open>abortController.abort()\<close>, and is gone.
\<close>

definition advanceClock :: "int \<Rightarrow> Bridge \<Rightarrow> Bridge" where
  "advanceClock t b =
     b\<lparr> clock := max (clock b) t,
        aborted := aborted b \<union> set (map (\<lambda>(i, due, ctrl). ctrl)
                                      (filter (\<lambda>(i, due, ctrl). due \<le> t) (timers b))),
        timers := filter (\<lambda>(i, due, ctrl). \<not> due \<le> t) (timers b) \<rparr>"

subsection \<open>Commands\<close>

text \<open>The white space of \<^verbatim>\<open>\s\<close> among the ASCII characters.\<close>

definition is_space :: "char \<Rightarrow> bool" where
  "is_space c = (c \<in> {CHR '' '', CHR 0x09, CHR 0x0A, CHR 0x0B, CHR 0x0C, CHR 0x0D})"

text \<open>
  \<^verbatim>\<open>text.split(/\s+/)\<close>: the flag tells whether the character before was white space, so
  that a run of white space separates once.
\<close>

fun split_ws_from :: "bool \<Rightarrow> string \<Rightarrow> string list" where
  "split_ws_from inws [] = [[]]"
| "split_ws_from inws (c # cs) =
     (if is_space c then (if inws then split_ws_from True cs else [] # split_ws_from True cs)
      else (case split_ws_from False cs of
              [] \<Rightarrow> [[c]]
            | p # ps \<Rightarrow> (c # p) # ps))"

definition split_ws :: "string \<Rightarrow> string list" where
  "split_ws s = split_ws_from False s"

definition trim :: "string \<Rightarrow> string" where
  "trim s = rev (dropWhile is_space (rev (dropWhile is_space s)))"

definition startsWith :: "string \<Rightarrow> char \<Rightarrow> bool" where
  "startsWith s c = (case s of [] \<Rightarrow> False | x # xs \<Rightarrow> x = c)"

text \<open>
  What the handlers ask of the world around them: the home directory and the scratch
  directory of the operating system, \<^verbatim>\<open>path.resolve\<close>, \<^verbatim>\<open>fs.statSync(p).isDirectory()\<close>
  (\<open>None\<close> when \<^verbatim>\<open>statSync\<close> throws), the message of the error
  \<^verbatim>\<open>fs.mkdirSync(tmpDir, { recursive: true })\<close> throws (\<open>None\<close> when it succeeds), whether the
  sender's \<^verbatim>\<open>downloadImage\<close> succeeds, the message id \<^verbatim>\<open>sendCard\<close> returns for the initial
  card of a task, and what happens while the agent's stream is consumed.
\<close>

datatype StreamStep =
    Yield SDKMessage
  | Raise string string
  | Clock int
  | Stop

record Env =
  homedir :: string
  tmpdir :: string
  pathResolve :: "string \<Rightarrow> string"
  statIsDirectory :: "string \<Rightarrow> bool option"
  mkdirError :: "string option"
  downloadOk :: bool
  initialMessageId :: "string option"
  script :: "StreamStep list"

text \<open>The \<^verbatim>\<open>/stop\<close> command.\<close>

definition stopTask :: "string \<Rightarrow> string \<Rightarrow> Bridge \<Rightarrow> Bridge" where
  "stopTask user chat b =
     (case runningTasks b user of
        Some task \<Rightarrow>
          sendCard chat (TextCard ''Stopped'' ''Current task has been aborted.'' ''orange'')
            (b\<lparr> aborted := insert (abortController task) (aborted b),
                runningTasks := (runningTasks b)(user := None) \<rparr>)
      | None \<Rightarrow>
          sendCard chat (TextCard ''No Running Task'' ''There is no task to stop.'' ''blue'') b)"

definition handleCommand :: "Env \<Rightarrow> IncomingMessage \<Rightarrow> Bridge \<Rightarrow> Bridge" where
  "handleCommand env msg b =
     (let parts = split_ws (msg_text msg);
          cmd = (case parts of [] \<Rightarrow> [] | c # args \<Rightarrow> c);
          arg = trim (join '' '' (case parts of [] \<Rightarrow> [] | c # args \<Rightarrow> args));
          lcmd = map lower_char cmd
      in if lcmd = ''/help'' then sendCard (chatId msg) HelpCard b
         else if lcmd = ''/cd'' then
           (if arg = [] then
              sendCard (chatId msg)
                (TextCard ''Usage'' (backticked ''/cd /path/to/project'') ''orange'') b
            else
              let expanded = (if startsWith arg CHR ''~'' then homedir env @ tl arg else arg);
                  resolvedPath = pathResolve env expanded
              in case statIsDirectory env resolvedPath of
                   Some True \<Rightarrow>
                     sendCard (chatId msg)
                       (TextCard ''Working Directory Set'' (backticked resolvedPath) ''green'')
                       (b\<lparr> sessionManager :=
                             setWorkingDirectory (clock b) (userId msg) resolvedPath
                               (sessionManager b) \<rparr>)
                 | Some False \<Rightarrow>
                     sendCard (chatId msg)
                       (TextCard ''Error'' (''Not a directory: '' @ backticked resolvedPath) ''red'') b
                 | None \<Rightarrow>
                     sendCard (chatId msg)
                       (TextCard ''Error'' (''Directory not found: '' @ backticked resolvedPath)
                          ''red'') b)
         else if lcmd = ''/reset'' then
           sendCard (chatId msg)
             (TextCard ''Session Reset'' ''Conversation cleared. Working directory preserved.''
                ''green'')
             (b\<lparr> sessionManager := resetSession (userId msg) (sessionManager b) \<rparr>)
         else if lcmd = ''/stop'' then stopTask (userId msg) (chatId msg) b
         else if lcmd = ''/status'' then
           (let (session, sm1) = getSession (clock b) (userId msg) (sessionManager b);
                b1 = b\<lparr> sessionManager := sm1 \<rparr>
            in sendCard (chatId msg)
                 (StatusCard (userId msg) (workingDirectory session) (sessionId session)
                    (runningTasks b1 (userId msg) \<noteq> None)) b1)
         else
           sendCard (chatId msg)
             (TextCard ''Unknown Command''
                (''Unknown command: '' @ backticked cmd @ [CHR 0x0A] @ ''Use ''
                   @ backticked ''/help'' @ '' for available commands.'') ''orange'') b)"

subsection \<open>Running a query\<close>

text \<open>
  The synchronous start of \<^verbatim>\<open>executeQuery\<close>: a fresh \<^verbatim>\<open>AbortController\<close>, the entry in
  \<^verbatim>\<open>runningTasks\<close>, and the timeout armed for \<^verbatim>\<open>TASK_TIMEOUT_MS\<close> from now. It returns
  the controller and the handle of the timeout.
\<close>

definition registerTask :: "string \<Rightarrow> Bridge \<Rightarrow> nat \<times> nat \<times> Bridge" where
  "registerTask user b =
     (let ctrl = nextId b; timeoutId = Suc (nextId b)
      in (ctrl, timeoutId,
          b\<lparr> runningTasks := (runningTasks b)(user \<mapsto>
                 \<lparr> abortController = ctrl, startTime = clock b \<rparr>),
             timers := timers b @ [(timeoutId, clock b + TASK_TIMEOUT_MS, ctrl)],
             nextId := Suc (Suc (nextId b)) \<rparr>))"

record LoopState =
  ls_bridge :: Bridge
  ls_processor :: StreamProcessor
  ls_lastState :: CardState

text \<open>
  \<^verbatim>\<open>session.sessionId\<close>, read through the session object \<^verbatim>\<open>executeQuery\<close> holds: the
  entry of the user in the session map (it is there from the \<^verbatim>\<open>getSession\<close> at the start,
  and no step of the loop removes it).
\<close>

definition currentSessionId :: "string \<Rightarrow> Bridge \<Rightarrow> string option" where
  "currentSessionId user b =
     (case sessions (sessionManager b) user of None \<Rightarrow> None | Some s \<Rightarrow> sessionId s)"

text \<open>
  The loop \<^verbatim>\<open>for await (const message of stream)\<close> over what the stream of
  \<^verbatim>\<open>ClaudeExecutor.execute\<close> does: it yields a message; it raises an error with a name and
  a message, which the executor swallows (ending the stream) when the name is
  \<^verbatim>\<open>AbortError\<close> or the signal is aborted and rethrows otherwise; or, while the loop awaits
  the next message, time passes or the user's \<^verbatim>\<open>/stop\<close> is handled. The result is the
  message of the error that reached \<^verbatim>\<open>executeQuery\<close>, if any, and the state the loop left.
  The throttled intermediate card updates go through the \<^verbatim>\<open>RateLimiter\<close> into
  \<^verbatim>\<open>updateCard\<close>; they touch nothing but the card shown and are not recorded.
\<close>

fun driveLoop :: "string \<Rightarrow> string \<Rightarrow> nat \<Rightarrow> StreamStep list \<Rightarrow> LoopState
    \<Rightarrow> string option \<times> LoopState" where
  "driveLoop user chat ctrl [] ls = (None, ls)"
| "driveLoop user chat ctrl (Yield m # rest) ls =
     (if ctrl \<in> aborted (ls_bridge ls) then (None, ls)
      else
        let (state, p') = processMessage m (ls_processor ls);
            b = ls_bridge ls;
            newSessionId = getSessionId p';
            b' = (if truthy newSessionId \<and> newSessionId \<noteq> currentSessionId user b
                  then b\<lparr> sessionManager :=
                            setSessionId (clock b) user (the newSessionId) (sessionManager b) \<rparr>
                  else b)
        in driveLoop user chat ctrl rest
             \<lparr> ls_bridge = b', ls_processor = p', ls_lastState = state \<rparr>)"
| "driveLoop user chat ctrl (Raise nm emsg # rest) ls =
     (if nm = ''AbortError'' \<or> ctrl \<in> aborted (ls_bridge ls) then (None, ls)
      else (Some emsg, ls))"
| "driveLoop user chat ctrl (Clock t # rest) ls =
     driveLoop user chat ctrl rest (ls\<lparr> ls_bridge := advanceClock t (ls_bridge ls) \<rparr>)"
| "driveLoop user chat ctrl (Stop # rest) ls =
     driveLoop user chat ctrl rest (ls\<lparr> ls_bridge := stopTask user chat (ls_bridge ls) \<rparr>)"

text \<open>The prefix of the prompt shown for a message with an image (an emoji in the source).\<close>

definition imagePrefix :: string where
  "imagePrefix = ''[image] ''"

text \<open>
  The early exit of \<^verbatim>\<open>executeQuery\<close> when the initial card could not be sent:
  \<^verbatim>\<open>runningTasks.delete(userId); clearTimeout(timeoutId); return\<close>.
\<close>

definition earlyExit :: "nat \<Rightarrow> string \<Rightarrow> Bridge \<Rightarrow> Bridge" where
  "earlyExit timeoutId user b =
     clearTimeout timeoutId (b\<lparr> runningTasks := (runningTasks b)(user := None) \<rparr>)"

text \<open>
  The \<^verbatim>\<open>finally\<close> block of \<^verbatim>\<open>executeQuery\<close>: the timeout is cleared, the running task
  removed, and the staged image, if the message had one, unlinked (a failure to unlink is
  ignored).
\<close>

definition finallyCleanup :: "nat \<Rightarrow> string \<Rightarrow> string option \<Rightarrow> Bridge \<Rightarrow> Bridge" where
  "finallyCleanup timeoutId user imagePath b =
     (let b1 = clearTimeout timeoutId b;
          b2 = b1\<lparr> runningTasks := (runningTasks b1)(user := None) \<rparr>
      in case imagePath of
           None \<Rightarrow> b2
         | Some path \<Rightarrow> b2\<lparr> files := files b2 - {path} \<rparr>)"

text \<open>
  \<^verbatim>\<open>executeQuery\<close>. The result is the message of the error the call throws, if any, and
  the state it leaves. The one statement that can throw outside the \<^verbatim>\<open>try\<close> is
  \<^verbatim>\<open>fs.mkdirSync\<close>, which runs for a message with an image after the task is registered
  and the timeout armed: when it throws, the call ends there, with both still in place
  (the sender's \<^verbatim>\<open>downloadImage\<close>, \<^verbatim>\<open>sendCard\<close> and \<^verbatim>\<open>updateCard\<close> catch their own
  errors). The prompt sent to the agent only reaches the stream, which \<open>env\<close> gives;
  \<^verbatim>\<open>sendOutputImages\<close> reads files the agent wrote and sends them, and changes nothing of
  the bridge's state. \<^verbatim>\<open>err.message || 'Unknown error'\<close> is the message of the error card.
\<close>

definition executeQuery :: "Env \<Rightarrow> IncomingMessage \<Rightarrow> Bridge \<Rightarrow> string option \<times> Bridge" where
  "executeQuery env msg b0 =
     (let (session, sm1) = getSession (clock b0) (userId msg) (sessionManager b0);
          b1 = b0\<lparr> sessionManager := sm1 \<rparr>;
          (ctrl, timeoutId, b2) = registerTask (userId msg) b1
      in if truthy (imageKey msg) \<and> mkdirError env \<noteq> None then (mkdirError env, b2)
         else
           let imagePath = (if truthy (imageKey msg)
                            then Some (tmpdir env @ ''/feishu-claudecode/'' @ the (imageKey msg)
                                         @ ''.png'')
                            else None);
               b3 = (case imagePath of
                       None \<Rightarrow> b2
                     | Some path \<Rightarrow>
                         if downloadOk env then b2\<lparr> files := insert path (files b2) \<rparr> else b2);
               displayPrompt = (if truthy (imageKey msg) then imagePrefix @ msg_text msg
                                else msg_text msg);
               processor = newStreamProcessor displayPrompt;
               initialState = \<lparr> status = Thinking, userPrompt = displayPrompt,
                                responseText = [], toolCalls = [], costUsd = None,
                                durationMs = None, errorMessage = None \<rparr>;
               b4 = sendCard (chatId msg) (StateCard initialState) b3
           in if \<not> truthy (initialMessageId env)
              then (None, earlyExit timeoutId (userId msg) b4)
              else
                let mid = the (initialMessageId env);
                    (raised, ls) = driveLoop (userId msg) (chatId msg) ctrl (script env)
                                     \<lparr> ls_bridge = b4, ls_processor = processor,
                                       ls_lastState = initialState \<rparr>;
                    lastState = ls_lastState ls;
                    b5 = (case raised of
                            None \<Rightarrow> updateCard mid (StateCard lastState) (ls_bridge ls)
                          | Some emsg \<Rightarrow>
                              updateCard mid
                                (StateCard \<lparr> status = Error, userPrompt = displayPrompt,
                                             responseText = responseText lastState,
                                             toolCalls = toolCalls lastState,
                                             costUsd = None, durationMs = None,
                                             errorMessage = Some (if emsg \<noteq> [] then emsg
                                                                  else ''Unknown error'') \<rparr>)
                                (ls_bridge ls))
                in (None, finallyCleanup timeoutId (userId msg) imagePath b5))"

text \<open>
  \<^verbatim>\<open>handleMessage\<close>: the error it throws, if any (only \<^verbatim>\<open>executeQuery\<close> can throw one),
  and the state it leaves.
\<close>

definition handleMessage :: "Env \<Rightarrow> IncomingMessage \<Rightarrow> Bridge \<Rightarrow> string option \<times> Bridge" where
  "handleMessage env msg b =
     (if startsWith (msg_text msg) CHR ''/'' then (None, handleCommand env msg b)
      else
        let (hasDir, sm1) = hasWorkingDirectory (clock b) (userId msg) (sessionManager b);
            b1 = b\<lparr> sessionManager := sm1 \<rparr>
        in if \<not> hasDir then
             (None, sendCard (chatId msg)
               (TextCard ''Working Directory Not Set''
                  (''Please set a working directory first:'' @ [CHR 0x0A]
                     @ backticked ''/cd /path/to/your/project'') ''orange'') b1)
           else if runningTasks b1 (userId msg) \<noteq> None then
             (None, sendCard (chatId msg)
               (TextCard ''Task In Progress''
                  (''You have a running task. Use '' @ backticked ''/stop''
                     @ '' to abort it, or wait for it to finish.'') ''orange'') b1)
           else executeQuery env msg b1)"

section \<open>Example inputs\<close>

text \<open>Two users with a session handle and a workspace each.\<close>

definition twoSessions :: SessionManager where
  "twoSessions =
     \<lparr> sessions =
         [''alice'' \<mapsto> \<lparr> sessionId = Some ''sess-a'', workingDirectory = Some ''/old'',
                          lastUsed = 10 \<rparr>,
          ''bob'' \<mapsto> \<lparr> sessionId = Some ''sess-b'', workingDirectory = Some ''/bob'',
                        lastUsed = 20 \<rparr>],
       defaultWorkingDirectory = None \<rparr>"

text \<open>
  A message with an image whose download succeeds, in a world where the initial card
  cannot be sent (\<^verbatim>\<open>sendCard\<close> returns \<^verbatim>\<open>undefined\<close>), and a plain text message.
\<close>

definition imageMessage :: IncomingMessage where
  "imageMessage =
     \<lparr> userId = ''u1'', chatId = ''c1'', msg_text = ''look'', imageKey = Some ''img-1'',
       messageId = ''m1'' \<rparr>"

definition textMessage :: IncomingMessage where
  "textMessage =
     \<lparr> userId = ''u1'', chatId = ''c1'', msg_text = ''hello'', imageKey = None,
       messageId = ''m2'' \<rparr>"

definition failedInitialCardEnv :: Env where
  "failedInitialCardEnv =
     \<lparr> homedir = ''/home/u'', tmpdir = ''/tmp'', pathResolve = (\<lambda>p. p),
       statIsDirectory = (\<lambda>p. Some True), mkdirError = None, downloadOk = True,
       initialMessageId = None, script = [] \<rparr>"

text \<open>A world in which the scratch directory cannot be created.\<close>

definition mkdirFailsEnv :: Env where
  "mkdirFailsEnv =
     failedInitialCardEnv\<lparr> mkdirError := Some ''ENOTDIR: not a directory, mkdir'' \<rparr>"

text \<open>A bridge in which the user \<^verbatim>\<open>u1\<close> has a workspace and a task running.\<close>

definition busyBridge :: Bridge where
  "busyBridge = snd (snd (registerTask ''u1'' (newBridge (Some ''/w''))))"

section \<open>Properties of the StreamProcessor\<close>

subsection \<open>The accumulated response text\<close>

lemma text_completeCurrentTool [simp]:
  "sp_responseText (completeCurrentTool p) = sp_responseText p"
  by (simp add: completeCurrentTool_def)

lemma text_addToolCall [simp]:
  "sp_responseText (addToolCall nm inp p) = sp_responseText p"
  by (simp add: addToolCall_def Let_def)

lemma text_processBlock_nested:
  "sp_responseText (processBlock (Some q) p b) = sp_responseText p"
  by (simp add: processBlock_def)

lemma text_processBlock_nonempty:
  "sp_responseText p \<noteq> [] \<Longrightarrow> sp_responseText (processBlock parent p b) \<noteq> []"
  by (auto simp: processBlock_def truthy_def split: option.splits)

lemma text_foldl_nested:
  "sp_responseText (foldl (processBlock (Some q)) p bs) = sp_responseText p"
  by (induction bs arbitrary: p) (simp_all add: text_processBlock_nested)

lemma text_foldl_nonempty:
  "sp_responseText p \<noteq> [] \<Longrightarrow> sp_responseText (foldl (processBlock parent) p bs) \<noteq> []"
  by (induction bs arbitrary: p) (simp_all add: text_processBlock_nonempty)

lemma text_assistant_nested:
  "parent_tool_use_id m \<noteq> None \<Longrightarrow>
     sp_responseText (processAssistantMessage m p) = sp_responseText p"
  by (auto simp: processAssistantMessage_def text_foldl_nested split: option.splits)

lemma text_assistant_nonempty:
  "sp_responseText p \<noteq> [] \<Longrightarrow> sp_responseText (processAssistantMessage m p) \<noteq> []"
  by (simp add: processAssistantMessage_def text_foldl_nonempty split: option.splits)

lemma stream_event_nested:
  "parent_tool_use_id m \<noteq> None \<Longrightarrow> processStreamEvent m p = p"
  by (simp add: processStreamEvent_def split: option.splits)

lemma text_stream_nonempty:
  "sp_responseText p \<noteq> [] \<Longrightarrow> sp_responseText (processStreamEvent m p) \<noteq> []"
  by (simp add: processStreamEvent_def split: option.splits)

lemma text_result [simp]:
  "sp_responseText (snd (processResultMessage m p)) = sp_responseText p"
  by (simp add: processResultMessage_def Let_def)

lemma text_processMessage_nonempty:
  "sp_responseText p \<noteq> [] \<Longrightarrow> sp_responseText (snd (processMessage m p)) \<noteq> []"
  by (simp add: processMessage_def Let_def text_assistant_nonempty text_stream_nonempty)

lemma text_processMessage_nested:
  "parent_tool_use_id m \<noteq> None \<Longrightarrow>
   msg_type m = ''assistant'' \<or> msg_type m = ''stream_event'' \<Longrightarrow>
     sp_responseText (snd (processMessage m p)) = sp_responseText p"
  by (auto simp: processMessage_def Let_def text_assistant_nested stream_event_nested)

subsection \<open>Snapshots of non-terminal and terminal events\<close>

lemma snapshot_text_nonterminal:
  "msg_type m \<noteq> ''result'' \<Longrightarrow>
     responseText (fst (processMessage m p)) = sp_responseText (snd (processMessage m p))"
  by (simp add: processMessage_def Let_def)

lemma snapshot_status_nonterminal:
  "msg_type m \<noteq> ''result'' \<Longrightarrow>
     status (fst (processMessage m p)) =
       (if list_ex (\<lambda>t. tool_status t = ToolRunning) (toolCalls (fst (processMessage m p)))
           \<or> responseText (fst (processMessage m p)) \<noteq> []
        then Running else Thinking)"
  by (simp add: processMessage_def Let_def)

lemma snapshot_status_terminal:
  "msg_type m = ''result'' \<Longrightarrow> status (fst (processMessage m p)) \<noteq> Thinking"
  by (simp add: processMessage_def processResultMessage_def Let_def)

lemma status_not_thinking:
  "sp_responseText p \<noteq> [] \<Longrightarrow> status (fst (processMessage m p)) \<noteq> Thinking"
proof (cases "msg_type m = ''result''")
  case True
  then show ?thesis by (rule snapshot_status_terminal)
next
  case False
  assume "sp_responseText p \<noteq> []"
  then have "sp_responseText (snd (processMessage m p)) \<noteq> []"
    by (rule text_processMessage_nonempty)
  with False show ?thesis
    by (simp add: snapshot_status_nonterminal snapshot_text_nonterminal)
qed

subsection \<open>Folding a sequence of events\<close>

lemma processAll_length [simp]: "length (fst (processAll ms p)) = length ms"
  by (induction ms arbitrary: p) (simp_all add: split_beta)

lemma processAll_Cons_fst:
  "fst (processAll (m # ms) p) =
     fst (processMessage m p) # fst (processAll ms (snd (processMessage m p)))"
  by (simp add: split_beta)

lemma processAll_append_snd:
  "snd (processAll (xs @ ys) p) = snd (processAll ys (snd (processAll xs p)))"
  by (induction xs arbitrary: p) (simp_all add: split_beta)

lemma processAll_all_not_thinking:
  "sp_responseText p \<noteq> [] \<Longrightarrow> \<forall>s \<in> set (fst (processAll ms p)). status s \<noteq> Thinking"
proof (induction ms arbitrary: p)
  case Nil
  then show ?case by simp
next
  case (Cons m ms)
  from Cons.prems have "sp_responseText (snd (processMessage m p)) \<noteq> []"
    by (rule text_processMessage_nonempty)
  from Cons.IH [OF this] Cons.prems show ?case
    by (simp add: processAll_Cons_fst status_not_thinking del: processAll.simps)
qed

text \<open>
  The snapshot at position \<open>i\<close> is the one \<open>processMessage\<close> returns for the \<open>i\<close>-th event
  on the processor left by the events before it, and the later snapshots are those of
  the later events on the processor left by the first \<open>i + 1\<close>.
\<close>

lemma processAll_from:
  "i < length ms \<Longrightarrow>
     fst (processAll ms p) ! i = fst (processMessage (ms ! i) (snd (processAll (take i ms) p)))
     \<and> drop (Suc i) (fst (processAll ms p)) =
         fst (processAll (drop (Suc i) ms) (snd (processAll (take (Suc i) ms) p)))"
proof (induction ms arbitrary: p i)
  case Nil
  then show ?case by simp
next
  case (Cons m ms)
  show ?case
  proof (cases i)
    case 0
    then show ?thesis by (simp add: split_beta)
  next
    case (Suc k)
    with Cons.prems have "k < length ms" by simp
    from Cons.IH [OF this, of "snd (processMessage m p)"] Suc show ?thesis
      by (simp add: split_beta)
  qed
qed

lemma status_derivation_nth:
  assumes "j < length ms" "msg_type (ms ! j) \<noteq> ''result''"
  shows "status (fst (processAll ms p) ! j) =
           (if list_ex (\<lambda>t. tool_status t = ToolRunning) (toolCalls (fst (processAll ms p) ! j))
               \<or> responseText (fst (processAll ms p) ! j) \<noteq> []
            then Running else Thinking)"
  using processAll_from [OF assms(1), of p] snapshot_status_nonterminal [OF assms(2)]
  by simp

lemma later_not_thinking:
  assumes "i \<le> j" "j < length ms" "msg_type (ms ! i) \<noteq> ''result''"
    and "responseText (fst (processAll ms p) ! i) \<noteq> []"
  shows "status (fst (processAll ms p) ! j) \<noteq> Thinking"
proof -
  let ?snaps = "fst (processAll ms p)"
  let ?pi = "snd (processAll (take i ms) p)"
  from assms have i: "i < length ms" by simp
  have nth_i: "?snaps ! i = fst (processMessage (ms ! i) ?pi)"
    using processAll_from [OF i, of p] by simp
  show ?thesis
  proof (cases "i = j")
    case True
    from assms(3) assms(4) nth_i have "status (?snaps ! i) = Running"
      by (simp add: snapshot_status_nonterminal)
    with True show ?thesis by simp
  next
    case False
    with assms have lt: "Suc i \<le> j" by simp
    let ?p1 = "snd (processAll (take (Suc i) ms) p)"
    have dr: "drop (Suc i) ?snaps = fst (processAll (drop (Suc i) ms) ?p1)"
      using processAll_from [OF i, of p] by simp
    have "take (Suc i) ms = take i ms @ [ms ! i]"
      using i by (simp add: take_Suc_conv_app_nth)
    then have p1: "?p1 = snd (processMessage (ms ! i) ?pi)"
      by (simp add: processAll_append_snd split_beta)
    from assms(3) assms(4) nth_i have "sp_responseText ?p1 \<noteq> []"
      by (simp add: p1 snapshot_text_nonterminal)
    then have all: "\<forall>s \<in> set (drop (Suc i) ?snaps). status s \<noteq> Thinking"
      unfolding dr by (rule processAll_all_not_thinking)
    from lt assms(2) have "?snaps ! j = drop (Suc i) ?snaps ! (j - Suc i)"
      by simp
    moreover from lt assms(2) have "j - Suc i < length (drop (Suc i) ?snaps)"
      by simp
    ultimately have "?snaps ! j \<in> set (drop (Suc i) ?snaps)"
      by (metis nth_mem)
    with all show ?thesis by blast
  qed
qed

text \<open>Events of a nested (sub-agent) context leave the response text as it is.\<close>

lemma nested_events_keep_text:
  "\<forall>e \<in> set es. (msg_type e = ''assistant'' \<or> msg_type e = ''stream_event'')
                   \<and> parent_tool_use_id e \<noteq> None \<Longrightarrow>
     sp_responseText (snd (processAll es q)) = sp_responseText q"
proof (induction es arbitrary: q)
  case Nil
  then show ?case by simp
next
  case (Cons e es)
  then have keep: "sp_responseText (snd (processMessage e q)) = sp_responseText q"
    by (simp add: text_processMessage_nested)
  from Cons.prems have "\<forall>e \<in> set es. (msg_type e = ''assistant'' \<or> msg_type e = ''stream_event'')
                   \<and> parent_tool_use_id e \<noteq> None"
    by simp
  from Cons.IH [OF this, of "snd (processMessage e q)"] keep show ?case
    by (simp add: split_beta)
qed

lemma nested_events_snapshots:
  "\<forall>e \<in> set es. (msg_type e = ''assistant'' \<or> msg_type e = ''stream_event'')
                   \<and> parent_tool_use_id e \<noteq> None \<Longrightarrow>
     \<forall>s \<in> set (fst (processAll es q)). responseText s = sp_responseText q"
proof (induction es arbitrary: q)
  case Nil
  then show ?case by simp
next
  case (Cons e es)
  then have keep: "sp_responseText (snd (processMessage e q)) = sp_responseText q"
    by (simp add: text_processMessage_nested)
  from Cons.prems have ne: "msg_type e \<noteq> ''result''" by auto
  from Cons.prems have "\<forall>e \<in> set es. (msg_type e = ''assistant'' \<or> msg_type e = ''stream_event'')
                   \<and> parent_tool_use_id e \<noteq> None"
    by simp
  from Cons.IH [OF this, of "snd (processMessage e q)"] keep ne show ?case
    by (simp add: split_beta snapshot_text_nonterminal)
qed

lemma join_empty_iff: "sep \<noteq> [] \<Longrightarrow> join sep es = [] \<longleftrightarrow> es = [] \<or> es = [[]]"
  by (induction sep es rule: join.induct) auto

lemmas build_defs = assistantMessage_def sdkMessage_def toolUseBlock_def textBlock_def
  toolResultBlock_def textDeltaEvent_def askUserQuestionMessage_def askUserQuestionInput_def
  newStreamProcessor_def

lemmas run_defs = processMessage_def processAssistantMessage_def processBlock_def
  processStreamEvent_def processResultMessage_def resultErrorMessage_def addToolCall_def
  completeCurrentTool_def formatToolDetail_def truthy_def

subsection \<open>The interactive question tool\<close>

text \<open>
  C1. The claim: a message event with a tool-use block named \<^verbatim>\<open>AskUserQuestion\<close> gives a
  snapshot with status \<^verbatim>\<open>waiting_for_input\<close> and a pending question carrying the
  invocation identifier and the questions, and opens no generic tool-call entry; the test
  \<^verbatim>\<open>detects AskUserQuestion and sets waiting_for_input\<close> of the repository expects that.
  \<^verbatim>\<open>processAssistantMessage\<close> has no branch for that name, \<^verbatim>\<open>CardStatus\<close> has no
  \<^verbatim>\<open>waiting_for_input\<close> and \<^verbatim>\<open>CardState\<close> no \<^verbatim>\<open>pendingQuestion\<close>: on the event of
  that test the snapshot has status \<^verbatim>\<open>running\<close> and one generic running tool-call entry
  named \<^verbatim>\<open>AskUserQuestion\<close>, and the identifier \<^verbatim>\<open>tool-q1\<close> and the questions are dropped.
\<close>

theorem askUserQuestion_opens_generic_tool:
  "fst (processMessage askUserQuestionMessage (newStreamProcessor ''hi'')) =
     \<lparr> status = Running, userPrompt = ''hi'', responseText = [],
       toolCalls = [\<lparr> name = ''AskUserQuestion'', detail = [], tool_status = ToolRunning \<rparr>],
       costUsd = None, durationMs = None, errorMessage = None \<rparr>"
  by (simp add: build_defs run_defs)

subsection \<open>Status derivation\<close>

text \<open>
  A tool call that has appeared and was closed by a tool-result block does not keep the
  status from falling back to \<^verbatim>\<open>thinking\<close>: after a \<^verbatim>\<open>Read\<close> tool-use block the first
  snapshot lists a tool call, and the snapshot of the following tool-result event has
  status \<^verbatim>\<open>thinking\<close>.
\<close>

theorem status_reverts_to_thinking_after_tool:
  "toolCalls (fst (processAll
       [assistantMessage None [toolUseBlock None ''Read'' None],
        assistantMessage None [toolResultBlock]] (newStreamProcessor ''hi'')) ! 0) \<noteq> []
   \<and> status (fst (processAll
       [assistantMessage None [toolUseBlock None ''Read'' None],
        assistantMessage None [toolResultBlock]] (newStreamProcessor ''hi'')) ! 1) = Thinking"
  by (simp add: build_defs run_defs)

text \<open>
  C3, as amended. For every event sequence and every processor it is folded from: the
  snapshot of each non-terminal event (any event other than \<^verbatim>\<open>result\<close>) has status
  \<^verbatim>\<open>running\<close> if one of its tool calls is still running or its response text is not
  empty, and \<^verbatim>\<open>thinking\<close> otherwise; and once a non-terminal snapshot carries response
  text, no snapshot from there on has status \<^verbatim>\<open>thinking\<close>.
\<close>

theorem status_derivation_invariant:
  "(\<forall>j < length ms. msg_type (ms ! j) \<noteq> ''result'' \<longrightarrow>
      status (fst (processAll ms p) ! j) =
        (if list_ex (\<lambda>t. tool_status t = ToolRunning) (toolCalls (fst (processAll ms p) ! j))
            \<or> responseText (fst (processAll ms p) ! j) \<noteq> []
         then Running else Thinking))
   \<and> (\<forall>i j. i \<le> j \<and> j < length ms \<and> msg_type (ms ! i) \<noteq> ''result''
          \<and> responseText (fst (processAll ms p) ! i) \<noteq> []
        \<longrightarrow> status (fst (processAll ms p) ! j) \<noteq> Thinking)"
  using status_derivation_nth later_not_thinking by blast

theorem status_derivation_invariant_witness:
  "msg_type ([assistantMessage None [textBlock ''Hello''],
              assistantMessage None [toolUseBlock None ''Read'' None],
              assistantMessage None [toolResultBlock]] ! 0) \<noteq> ''result''
   \<and> responseText (fst (processAll
        [assistantMessage None [textBlock ''Hello''],
         assistantMessage None [toolUseBlock None ''Read'' None],
         assistantMessage None [toolResultBlock]] (newStreamProcessor ''hi'')) ! 0) \<noteq> []
   \<and> status (fst (processAll
        [assistantMessage None [textBlock ''Hello''],
         assistantMessage None [toolUseBlock None ''Read'' None],
         assistantMessage None [toolResultBlock]] (newStreamProcessor ''hi'')) ! 2) = Running"
proof -
  let ?ms = "[assistantMessage None [textBlock ''Hello''],
              assistantMessage None [toolUseBlock None ''Read'' None],
              assistantMessage None [toolResultBlock]]"
  let ?p = "newStreamProcessor ''hi''"
  have a: "msg_type (?ms ! 0) \<noteq> ''result''"
    by (simp add: build_defs)
  have b: "responseText (fst (processAll ?ms ?p) ! 0) \<noteq> []"
    by (simp add: build_defs run_defs)
  have c: "msg_type (?ms ! 2) \<noteq> ''result''"
    by (simp add: build_defs)
  have "status (fst (processAll ?ms ?p) ! 2) \<noteq> Thinking"
    by (rule status_derivation_invariant [of ?ms ?p, THEN conjunct2, rule_format, of 0 2])
       (use a b in simp)
  moreover have "status (fst (processAll ?ms ?p) ! 2) = Running
                 \<or> status (fst (processAll ?ms ?p) ! 2) = Thinking"
    using status_derivation_invariant [of ?ms ?p, THEN conjunct1, rule_format, of 2] c
    by (simp del: processAll.simps)
  ultimately show ?thesis using a b by simp
qed

subsection \<open>Top-level text replaces, nested text is ignored\<close>

text \<open>
  C6. A top-level assistant message (no parent-tool marker) whose content is one text
  block with the non-empty text \<open>t\<close> sets the accumulated response text to exactly \<open>t\<close>,
  whatever had been accumulated before, and every following sequence of assistant or
  stream events that carry a parent-tool marker leaves it at \<open>t\<close>: in each of their
  snapshots and in the processor at the end. The witness takes \<open>t\<close> to be \<^verbatim>\<open>Hello\<close>, an
  earlier text \<^verbatim>\<open>old\<close>, and a nested delta with the text \<^verbatim>\<open>ignored\<close>.
\<close>

theorem toplevel_text_replaces_and_nested_ignored:
  assumes "msg_type m = ''assistant''" and "parent_tool_use_id m = None"
    and "msg_content m = Some [b]" and "block_type b = ''text''" and "block_text b = Some t"
    and "t \<noteq> []"
    and "\<forall>e \<in> set es. (msg_type e = ''assistant'' \<or> msg_type e = ''stream_event'')
                        \<and> parent_tool_use_id e \<noteq> None"
  shows "responseText (fst (processMessage m p)) = t
         \<and> sp_responseText (snd (processMessage m p)) = t
         \<and> (\<forall>s \<in> set (fst (processAll es (snd (processMessage m p)))). responseText s = t)
         \<and> sp_responseText (snd (processAll es (snd (processMessage m p)))) = t"
proof -
  from assms(1-6) have m: "sp_responseText (snd (processMessage m p)) = t"
    by (simp add: processMessage_def processAssistantMessage_def processBlock_def
        truthy_def Let_def)
  from assms(1) have nt: "msg_type m \<noteq> ''result''" by simp
  from m nt nested_events_snapshots [OF assms(7), of "snd (processMessage m p)"]
    nested_events_keep_text [OF assms(7), of "snd (processMessage m p)"]
  show ?thesis by (simp add: snapshot_text_nonterminal)
qed

theorem toplevel_text_replaces_and_nested_ignored_witness:
  "sp_responseText ((newStreamProcessor ''hi'')\<lparr> sp_responseText := ''old'' \<rparr>) = ''old''
   \<and> responseText (fst (processMessage (assistantMessage None [textBlock ''Hello''])
        ((newStreamProcessor ''hi'')\<lparr> sp_responseText := ''old'' \<rparr>))) = ''Hello''
   \<and> sp_responseText (snd (processAll
        [textDeltaEvent (Some ''tool-1'') ''ignored'',
         assistantMessage (Some ''tool-1'') [textBlock ''nested'']]
        (snd (processMessage (assistantMessage None [textBlock ''Hello''])
          ((newStreamProcessor ''hi'')\<lparr> sp_responseText := ''old'' \<rparr>))))) = ''Hello''"
proof -
  let ?m = "assistantMessage None [textBlock ''Hello'']"
  let ?es = "[textDeltaEvent (Some ''tool-1'') ''ignored'',
              assistantMessage (Some ''tool-1'') [textBlock ''nested'']]"
  have 1: "msg_type ?m = ''assistant''" and 2: "parent_tool_use_id ?m = None"
    and 3: "msg_content ?m = Some [textBlock ''Hello'']"
    by (simp_all add: build_defs)
  have 4: "block_type (textBlock ''Hello'') = ''text''"
    and 5: "block_text (textBlock ''Hello'') = Some ''Hello''"
    by (simp_all add: build_defs)
  have 6: "''Hello'' \<noteq> []" by simp
  have 7: "\<forall>e \<in> set ?es. (msg_type e = ''assistant'' \<or> msg_type e = ''stream_event'')
                        \<and> parent_tool_use_id e \<noteq> None"
    by (simp add: build_defs)
  from toplevel_text_replaces_and_nested_ignored [OF 1 2 3 4 5 6 7]
  show ?thesis by simp
qed

subsection \<open>Terminal result events\<close>

text \<open>
  A failed result whose only error string is the empty string: the joined errors are the
  empty string, which is falsy, so the message is the fallback and not the joined errors.
\<close>

theorem empty_error_string_falls_back:
  "errorMessage (fst (processMessage
       ((sdkMessage ''result'')\<lparr> subtype := Some ''error'', errors := Some [[]] \<rparr>)
       (newStreamProcessor ''hi''))) = Some ''Ended with: error''
   \<and> errorMessage (fst (processMessage
       ((sdkMessage ''result'')\<lparr> subtype := Some ''error'', errors := Some [[]] \<rparr>)
       (newStreamProcessor ''hi''))) \<noteq> Some (join ''; '' [[]])"
  by (simp add: build_defs run_defs)

text \<open>
  C7, as amended. For every terminal result event: if the subtype is \<^verbatim>\<open>success\<close> the
  snapshot has status \<^verbatim>\<open>complete\<close> and no error message; otherwise it has status
  \<^verbatim>\<open>error\<close> and its error message is the reported error strings joined with
  \<^verbatim>\<open>"; "\<close>, except that the generic message \<^verbatim>\<open>Ended with: <subtype>\<close> stands in when no
  errors are reported, the list of errors is empty, or it holds only the empty string
  (that is, when the joined string is empty). The witness: errors \<^verbatim>\<open>["A","B"]\<close> give
  exactly \<^verbatim>\<open>A; B\<close>.
\<close>

theorem result_status_and_error_message:
  assumes "msg_type m = ''result''"
  shows "(subtype m = Some ''success'' \<longrightarrow>
            status (fst (processMessage m p)) = Complete
            \<and> errorMessage (fst (processMessage m p)) = None)
       \<and> (subtype m \<noteq> Some ''success'' \<longrightarrow>
            status (fst (processMessage m p)) = Error
            \<and> errorMessage (fst (processMessage m p)) =
                Some (case errors m of
                        None \<Rightarrow> ''Ended with: '' @ (case subtype m of None \<Rightarrow> ''undefined'' | Some s \<Rightarrow> s)
                      | Some es \<Rightarrow>
                          if es = [] \<or> es = [[]]
                          then ''Ended with: '' @ (case subtype m of None \<Rightarrow> ''undefined'' | Some s \<Rightarrow> s)
                          else join ''; '' es))"
proof -
  have "join ''; '' es = [] \<longleftrightarrow> es = [] \<or> es = [[]]" for es
    by (rule join_empty_iff) simp
  with assms show ?thesis
    by (simp add: processMessage_def processResultMessage_def resultErrorMessage_def
        truthy_def Let_def split: option.splits)
qed

theorem result_status_and_error_message_witness:
  "msg_type ((sdkMessage ''result'')\<lparr> subtype := Some ''error'', errors := Some [''A'', ''B''] \<rparr>)
     = ''result''
   \<and> status (fst (processMessage
        ((sdkMessage ''result'')\<lparr> subtype := Some ''error'', errors := Some [''A'', ''B''] \<rparr>)
        (newStreamProcessor ''hi''))) = Error
   \<and> errorMessage (fst (processMessage
        ((sdkMessage ''result'')\<lparr> subtype := Some ''error'', errors := Some [''A'', ''B''] \<rparr>)
        (newStreamProcessor ''hi''))) = Some ''A; B''"
proof -
  let ?m = "(sdkMessage ''result'')\<lparr> subtype := Some ''error'', errors := Some [''A'', ''B''] \<rparr>"
  have r: "msg_type ?m = ''result''" by (simp add: sdkMessage_def)
  have s: "subtype ?m \<noteq> Some ''success''" by (simp add: sdkMessage_def)
  have e: "errors ?m = Some [''A'', ''B'']" by (simp add: sdkMessage_def)
  from result_status_and_error_message [OF r, of "newStreamProcessor ''hi''"] s e r
  show ?thesis by simp
qed

section \<open>Properties of the SessionManager\<close>

lemmas sm_defs = getSession_def setSessionId_def setWorkingDirectory_def resetSession_def
  hasWorkingDirectory_def cleanupExpired_def newSessionManager_def

text \<open>
  C8. \<^verbatim>\<open>setWorkingDirectory(k, p)\<close> at any time and on any manager: afterwards \<open>k\<close> has a
  context whose workspace is \<open>p\<close>; if \<open>k\<close> had a context with a session handle (a truthy
  \<^verbatim>\<open>sessionId\<close>, which is the source's test) and a stored workspace other than \<open>p\<close>, the
  handle is cleared, and whenever the stored workspace was other than \<open>p\<close> no truthy
  handle is left; if the stored workspace was \<open>p\<close>, the handle is as it was; a key
  without a context gets one without a handle; the context of every other key and the
  default workspace are unchanged.
\<close>

theorem setWorkingDirectory_effect:
  "(\<exists>s'. sessions (setWorkingDirectory now k p sm) k = Some s'
       \<and> workingDirectory s' = Some p
       \<and> (case sessions sm k of
            None \<Rightarrow> sessionId s' = None
          | Some s \<Rightarrow>
              (truthy (sessionId s) \<and> workingDirectory s \<noteq> Some p \<longrightarrow> sessionId s' = None)
              \<and> (workingDirectory s \<noteq> Some p \<longrightarrow> \<not> truthy (sessionId s'))
              \<and> (workingDirectory s = Some p \<longrightarrow> sessionId s' = sessionId s)))
   \<and> (\<forall>k'. k' \<noteq> k \<longrightarrow> sessions (setWorkingDirectory now k p sm) k' = sessions sm k')
   \<and> defaultWorkingDirectory (setWorkingDirectory now k p sm) = defaultWorkingDirectory sm"
proof -
  have "\<not> truthy None" by (simp add: truthy_def)
  then show ?thesis
    by (simp add: sm_defs Let_def split: option.splits)
qed

theorem setWorkingDirectory_effect_witness:
  "sessions (setWorkingDirectory 30 ''alice'' ''/new'' twoSessions) ''alice''
     = Some \<lparr> sessionId = None, workingDirectory = Some ''/new'', lastUsed = 30 \<rparr>
   \<and> sessions (setWorkingDirectory 30 ''alice'' ''/old'' twoSessions) ''alice''
     = Some \<lparr> sessionId = Some ''sess-a'', workingDirectory = Some ''/old'', lastUsed = 30 \<rparr>
   \<and> sessions (setWorkingDirectory 30 ''alice'' ''/new'' twoSessions) ''bob''
     = sessions twoSessions ''bob''"
proof -
  have a: "sessions twoSessions ''alice''
             = Some \<lparr> sessionId = Some ''sess-a'', workingDirectory = Some ''/old'',
                      lastUsed = 10 \<rparr>"
    by (simp add: twoSessions_def)
  have t: "truthy (Some ''sess-a'')" by (simp add: truthy_def)
  have l: "lastUsed (the (sessions (setWorkingDirectory 30 ''alice'' p twoSessions) ''alice''))
             = 30" for p
    by (simp add: sm_defs Let_def twoSessions_def)
  from setWorkingDirectory_effect [of 30 "''alice''" "''/new''" twoSessions] a t l [of "''/new''"]
  have 1: "sessions (setWorkingDirectory 30 ''alice'' ''/new'' twoSessions) ''alice''
     = Some \<lparr> sessionId = None, workingDirectory = Some ''/new'', lastUsed = 30 \<rparr>"
    by auto
  from setWorkingDirectory_effect [of 30 "''alice''" "''/old''" twoSessions] a l [of "''/old''"]
  have 2: "sessions (setWorkingDirectory 30 ''alice'' ''/old'' twoSessions) ''alice''
     = Some \<lparr> sessionId = Some ''sess-a'', workingDirectory = Some ''/old'', lastUsed = 30 \<rparr>"
    by auto
  from setWorkingDirectory_effect [of 30 "''alice''" "''/new''" twoSessions]
  have 3: "sessions (setWorkingDirectory 30 ''alice'' ''/new'' twoSessions) ''bob''
     = sessions twoSessions ''bob''"
    by simp
  from 1 2 3 show ?thesis by simp
qed

text \<open>
  \<^verbatim>\<open>resetSession\<close> takes a key and reads the map directly: for a key without a context it
  inserts nothing, and for a key with one it leaves \<^verbatim>\<open>lastUsed\<close> as it was.
\<close>

theorem resetSession_neither_inserts_nor_refreshes:
  "sessions (resetSession ''alice'' (newSessionManager (Some ''/w''))) ''alice'' = None
   \<and> sessions (resetSession ''alice'' twoSessions) ''alice''
       = Some \<lparr> sessionId = None, workingDirectory = Some ''/old'', lastUsed = 10 \<rparr>"
  by (simp add: sm_defs twoSessions_def)

text \<open>
  C10, as amended. \<^verbatim>\<open>getSession\<close>, \<^verbatim>\<open>hasWorkingDirectory\<close>, \<^verbatim>\<open>setSessionId\<close> and
  \<^verbatim>\<open>setWorkingDirectory\<close> insert a fresh context (no session handle, the default workspace,
  \<^verbatim>\<open>lastUsed\<close> the current time, then with the handle or the workspace they set) when the
  key has none; the two queries leave an existing context as it was but for \<^verbatim>\<open>lastUsed\<close>;
  after each of the four the key's \<^verbatim>\<open>lastUsed\<close> is the current time, so that a sweep at any
  time up to the TTL later keeps the key. \<^verbatim>\<open>resetSession\<close> is the exception: it inserts
  nothing for a key without a context and only clears the handle of an existing one.
\<close>

theorem keyed_operations_insert_and_refresh:
  "(sessions sm k = None \<longrightarrow>
      sessions (snd (getSession now k sm)) k
        = Some \<lparr> sessionId = None, workingDirectory = defaultWorkingDirectory sm, lastUsed = now \<rparr>
      \<and> sessions (snd (hasWorkingDirectory now k sm)) k
        = Some \<lparr> sessionId = None, workingDirectory = defaultWorkingDirectory sm, lastUsed = now \<rparr>
      \<and> sessions (setSessionId now k sid sm) k
        = Some \<lparr> sessionId = Some sid, workingDirectory = defaultWorkingDirectory sm,
                 lastUsed = now \<rparr>
      \<and> sessions (setWorkingDirectory now k dir sm) k
        = Some \<lparr> sessionId = None, workingDirectory = Some dir, lastUsed = now \<rparr>
      \<and> sessions (resetSession k sm) k = None)
   \<and> (\<forall>s. sessions sm k = Some s \<longrightarrow>
        sessions (snd (getSession now k sm)) k = Some (s\<lparr> lastUsed := now \<rparr>)
        \<and> sessions (snd (hasWorkingDirectory now k sm)) k = Some (s\<lparr> lastUsed := now \<rparr>)
        \<and> sessions (resetSession k sm) k = Some (s\<lparr> sessionId := None \<rparr>))
   \<and> (\<forall>sm' \<in> {snd (getSession now k sm), snd (hasWorkingDirectory now k sm),
                 setSessionId now k sid sm, setWorkingDirectory now k dir sm}.
        (\<exists>s'. sessions sm' k = Some s' \<and> lastUsed s' = now)
        \<and> (\<forall>t. t - now \<le> SESSION_TTL_MS \<longrightarrow>
              sessions (cleanupExpired t sm') k = sessions sm' k))"
  by (auto simp: sm_defs Let_def split: option.splits)

theorem keyed_operations_insert_and_refresh_witness:
  "sessions (newSessionManager (Some ''/w'')) ''alice'' = None
   \<and> sessions (snd (hasWorkingDirectory 100 ''alice'' (newSessionManager (Some ''/w'')))) ''alice''
       = Some \<lparr> sessionId = None, workingDirectory = Some ''/w'', lastUsed = 100 \<rparr>
   \<and> (100 + SESSION_TTL_MS) - 100 \<le> SESSION_TTL_MS
   \<and> sessions (cleanupExpired (100 + SESSION_TTL_MS)
        (snd (hasWorkingDirectory 100 ''alice'' (newSessionManager (Some ''/w''))))) ''alice''
       = Some \<lparr> sessionId = None, workingDirectory = Some ''/w'', lastUsed = 100 \<rparr>"
proof -
  let ?sm = "newSessionManager (Some ''/w'')"
  note th = keyed_operations_insert_and_refresh [of ?sm "''alice''" 100 "''s''" "''/d''"]
  have absent: "sessions ?sm ''alice'' = None"
    by (simp add: newSessionManager_def)
  have dflt: "defaultWorkingDirectory ?sm = Some ''/w''"
    by (simp add: newSessionManager_def)
  from th absent dflt
  have ins: "sessions (snd (hasWorkingDirectory 100 ''alice'' ?sm)) ''alice''
       = Some \<lparr> sessionId = None, workingDirectory = Some ''/w'', lastUsed = 100 \<rparr>"
    by simp
  have le: "(100 + SESSION_TTL_MS) - 100 \<le> SESSION_TTL_MS" by simp
  from th have "\<forall>t. t - 100 \<le> SESSION_TTL_MS \<longrightarrow>
      sessions (cleanupExpired t (snd (hasWorkingDirectory 100 ''alice'' ?sm))) ''alice''
        = sessions (snd (hasWorkingDirectory 100 ''alice'' ?sm)) ''alice''"
    by blast
  with le have "sessions (cleanupExpired (100 + SESSION_TTL_MS)
        (snd (hasWorkingDirectory 100 ''alice'' ?sm))) ''alice''
        = sessions (snd (hasWorkingDirectory 100 ''alice'' ?sm)) ''alice''"
    by blast
  with absent ins le show ?thesis by simp
qed

section \<open>Properties of the RateLimiter\<close>

lemmas rl_defs = newRateLimiter_def elapse_def schedule_def

text \<open>
  C9. On a fresh limiter with interval \<open>w\<close>, thunks \<open>f1\<close>, \<open>f2\<close>, \<open>f3\<close> scheduled at times
  \<open>t1 \<le> t2 \<le> t3\<close> within one window (\<open>t3 < t1 + w\<close>): \<open>f1\<close> executes at \<open>t1\<close>, at once;
  nothing else has executed after the third call; and at every later moment the
  executions are \<open>f1\<close> at \<open>t1\<close> alone before the window has elapsed, and \<open>f1\<close> at \<open>t1\<close>
  followed by \<open>f3\<close> at \<open>t1 + w\<close>, once, from then on. \<open>f2\<close> is never executed. The witness
  is the example of the specification: interval 1000, calls at 0, 10 and 20.
\<close>

theorem latest_pending_wins:
  assumes "t1 \<le> t2" and "t2 \<le> t3" and "t3 < t1 + w"
  shows "executed (schedule t1 f1 (newRateLimiter w)) = [(t1, f1)]
       \<and> executed (schedule t3 f3 (schedule t2 f2 (schedule t1 f1 (newRateLimiter w))))
           = [(t1, f1)]
       \<and> (\<forall>T. executed (elapse T
                 (schedule t3 f3 (schedule t2 f2 (schedule t1 f1 (newRateLimiter w)))))
             = (if T < t1 + w then [(t1, f1)] else [(t1, f1), (t1 + w, f3)]))
       \<and> (f2 \<noteq> f1 \<and> f2 \<noteq> f3 \<longrightarrow>
            (\<forall>T. f2 \<notin> snd ` set (executed (elapse T
                 (schedule t3 f3 (schedule t2 f2 (schedule t1 f1 (newRateLimiter w))))))))"
  using assms by (simp add: rl_defs Let_def)

theorem latest_pending_wins_witness:
  "(0::nat) \<le> 10 \<and> (10::nat) \<le> 20 \<and> (20::nat) < 0 + 1000
   \<and> executed (elapse 999
        (schedule 20 ''f3'' (schedule 10 ''f2'' (schedule 0 ''f1'' (newRateLimiter 1000)))))
       = [(0, ''f1'')]
   \<and> executed (elapse 1000
        (schedule 20 ''f3'' (schedule 10 ''f2'' (schedule 0 ''f1'' (newRateLimiter 1000)))))
       = [(0, ''f1''), (1000, ''f3'')]"
proof -
  have h: "(0::nat) \<le> 10" "(10::nat) \<le> 20" "(20::nat) < 0 + 1000" by simp_all
  note th = latest_pending_wins [OF h, of "''f1''" "''f3''" "''f2''"]
  from th have "executed (elapse 999
        (schedule 20 ''f3'' (schedule 10 ''f2'' (schedule 0 ''f1'' (newRateLimiter 1000)))))
       = (if (999::nat) < 0 + 1000 then [(0, ''f1'')] else [(0, ''f1''), (0 + 1000, ''f3'')])"
    by blast
  moreover from th have "executed (elapse 1000
        (schedule 20 ''f3'' (schedule 10 ''f2'' (schedule 0 ''f1'' (newRateLimiter 1000)))))
       = (if (1000::nat) < 0 + 1000 then [(0, ''f1'')] else [(0, ''f1''), (0 + 1000, ''f3'')])"
    by blast
  ultimately show ?thesis by simp
qed

section \<open>Properties of the MessageBridge\<close>

subsection \<open>The task timeout\<close>

text \<open>
  A task admitted at time 0 has its cancellation handle triggered once ten minutes have
  passed, long before an hour.
\<close>

theorem timeout_fires_after_ten_minutes:
  "fst (registerTask ''u1'' (newBridge (Some ''/w'')))
     \<in> aborted (advanceClock (10 * 60 * 1000)
                  (snd (snd (registerTask ''u1'' (newBridge (Some ''/w''))))))
   \<and> (10 * 60 * 1000 :: int) < 60 * 60 * 1000"
  by (simp add: registerTask_def advanceClock_def newBridge_def TASK_TIMEOUT_MS_def Let_def)

text \<open>
  C2, as amended. The per-task timeout ceiling is ten minutes (600000 ms). In a bridge
  whose controllers and timers were drawn from \<open>nextId\<close>, admitting a task registers it
  with a fresh cancellation handle and arms a timer such that, as time passes up to \<open>t\<close>,
  the handle is triggered exactly when \<open>t\<close> is ten minutes or more after admission; once
  the timer is cleared (which the early exit and the \<^verbatim>\<open>finally\<close> block of
  \<^verbatim>\<open>executeQuery\<close> do) the handle is not triggered by the passing of time at all.
\<close>

theorem task_timeout_ten_minutes:
  assumes "registerTask user b = (ctrl, tid, b')"
    and "\<forall>c \<in> aborted b. c < nextId b"
    and "\<forall>(i, due, c) \<in> set (timers b). i < nextId b \<and> c < nextId b"
  shows "TASK_TIMEOUT_MS = 600000
       \<and> (\<exists>task. runningTasks b' user = Some task \<and> abortController task = ctrl)
       \<and> (\<forall>t. ctrl \<in> aborted (advanceClock t b') \<longleftrightarrow> clock b + 600000 \<le> t)
       \<and> (\<forall>t. ctrl \<notin> aborted (advanceClock t (clearTimeout tid b')))"
proof -
  from assms(1) have ctrl: "ctrl = nextId b" and tid: "tid = Suc (nextId b)"
    and b': "b' = b\<lparr> runningTasks := (runningTasks b)(user \<mapsto>
                 \<lparr> abortController = ctrl, startTime = clock b \<rparr>),
             timers := timers b @ [(tid, clock b + TASK_TIMEOUT_MS, ctrl)],
             nextId := Suc (Suc (nextId b)) \<rparr>"
    by (auto simp: registerTask_def Let_def)
  from assms(2) ctrl have fresh: "ctrl \<notin> aborted b" by auto
  from assms(3) ctrl tid
  have other: "\<And>i due c. (i, due, c) \<in> set (timers b) \<Longrightarrow> c \<noteq> ctrl \<and> i \<noteq> tid"
    by fastforce
  have 1: "TASK_TIMEOUT_MS = 600000" by (simp add: TASK_TIMEOUT_MS_def)
  have 2: "\<exists>task. runningTasks b' user = Some task \<and> abortController task = ctrl"
    by (simp add: b')
  have 3: "ctrl \<in> aborted (advanceClock t b') \<longleftrightarrow> clock b + 600000 \<le> t" for t
    using fresh other by (auto simp: advanceClock_def b' 1)
  have 4: "ctrl \<notin> aborted (advanceClock t (clearTimeout tid b'))" for t
    using fresh other by (auto simp: advanceClock_def clearTimeout_def b')
  from 1 2 3 4 show ?thesis by blast
qed

theorem task_timeout_ten_minutes_witness:
  "registerTask ''u1'' (newBridge (Some ''/w'')) = (0, 1, busyBridge)
   \<and> 0 \<notin> aborted (advanceClock 599999 busyBridge)
   \<and> 0 \<in> aborted (advanceClock 600000 busyBridge)
   \<and> 0 \<notin> aborted (advanceClock 3600000 (clearTimeout 1 busyBridge))"
proof -
  let ?b = "newBridge (Some ''/w'')"
  have r: "registerTask ''u1'' ?b = (0, 1, busyBridge)"
    by (simp add: busyBridge_def registerTask_def newBridge_def Let_def)
  have a: "\<forall>c \<in> aborted ?b. c < nextId ?b" by (simp add: newBridge_def)
  have t: "\<forall>(i, due, c) \<in> set (timers ?b). i < nextId ?b \<and> c < nextId ?b"
    by (simp add: newBridge_def)
  have c: "clock ?b = 0" by (simp add: newBridge_def)
  note th = task_timeout_ten_minutes [OF r a t]
  from th c have "0 \<in> aborted (advanceClock 599999 busyBridge) \<longleftrightarrow> (600000::int) \<le> 599999"
    by simp
  moreover from th c have "0 \<in> aborted (advanceClock 600000 busyBridge) \<longleftrightarrow> (600000::int) \<le> 600000"
    by simp
  moreover from th have "0 \<notin> aborted (advanceClock 3600000 (clearTimeout 1 busyBridge))"
    by blast
  ultimately show ?thesis using r by simp
qed

subsection \<open>Admission\<close>

text \<open>
  C4. \<^verbatim>\<open>handleMessage\<close> on a message that is not a command (its text does not start with
  a slash): when the key has no workspace (\<^verbatim>\<open>hasWorkingDirectory\<close> is false), no error is
  thrown, the reply is the card \<^verbatim>\<open>Working Directory Not Set\<close> and the running tasks, the
  armed timeouts and the aborted handles are as before; when a running task exists for
  the key, no error is thrown, the reply is one informational (orange) text card, and
  again the running tasks (so the task already running), the timeouts and the aborted
  handles are as before. No task is registered in either case.
\<close>

theorem admission_rejection:
  assumes "\<not> startsWith (msg_text msg) CHR ''/''"
  shows "(\<not> fst (hasWorkingDirectory (clock b) (userId msg) (sessionManager b)) \<longrightarrow>
            fst (handleMessage env msg b) = None
            \<and> runningTasks (snd (handleMessage env msg b)) = runningTasks b
            \<and> timers (snd (handleMessage env msg b)) = timers b
            \<and> aborted (snd (handleMessage env msg b)) = aborted b
            \<and> outbox (snd (handleMessage env msg b)) = outbox b @
                [SendCard (chatId msg)
                   (TextCard ''Working Directory Not Set''
                      (''Please set a working directory first:'' @ [CHR 0x0A]
                         @ backticked ''/cd /path/to/your/project'') ''orange'')])
       \<and> (runningTasks b (userId msg) \<noteq> None \<longrightarrow>
            fst (handleMessage env msg b) = None
            \<and> runningTasks (snd (handleMessage env msg b)) = runningTasks b
            \<and> timers (snd (handleMessage env msg b)) = timers b
            \<and> aborted (snd (handleMessage env msg b)) = aborted b
            \<and> (\<exists>title content.
                  outbox (snd (handleMessage env msg b)) = outbox b @
                    [SendCard (chatId msg) (TextCard title content ''orange'')]))"
  using assms
  by (simp add: handleMessage_def sendCard_def hasWorkingDirectory_def getSession_def
      Let_def split_beta)

theorem admission_rejection_witness:
  "\<not> startsWith (msg_text textMessage) CHR ''/''
   \<and> \<not> fst (hasWorkingDirectory (clock (newBridge None)) (userId textMessage)
              (sessionManager (newBridge None)))
   \<and> fst (handleMessage failedInitialCardEnv textMessage (newBridge None)) = None
   \<and> runningTasks (snd (handleMessage failedInitialCardEnv textMessage (newBridge None))) ''u1''
       = None
   \<and> runningTasks busyBridge (userId textMessage) \<noteq> None
   \<and> fst (handleMessage failedInitialCardEnv textMessage busyBridge) = None
   \<and> runningTasks (snd (handleMessage failedInitialCardEnv textMessage busyBridge))
       = runningTasks busyBridge
   \<and> timers (snd (handleMessage failedInitialCardEnv textMessage busyBridge))
       = timers busyBridge"
proof -
  have n: "\<not> startsWith (msg_text textMessage) CHR ''/''"
    by (simp add: textMessage_def startsWith_def)
  have w: "\<not> fst (hasWorkingDirectory (clock (newBridge None)) (userId textMessage)
              (sessionManager (newBridge None)))"
    by (simp add: newBridge_def sm_defs truthy_def textMessage_def Let_def)
  have e: "runningTasks (newBridge None) ''u1'' = None"
    by (simp add: newBridge_def)
  have r: "runningTasks busyBridge (userId textMessage) \<noteq> None"
    by (simp add: busyBridge_def registerTask_def newBridge_def textMessage_def Let_def)
  from admission_rejection [OF n, of "newBridge None" failedInitialCardEnv] w e
  have 1: "fst (handleMessage failedInitialCardEnv textMessage (newBridge None)) = None
           \<and> runningTasks (snd (handleMessage failedInitialCardEnv textMessage (newBridge None)))
               ''u1'' = None"
    by simp
  from admission_rejection [OF n, of busyBridge failedInitialCardEnv] r
  have 2: "fst (handleMessage failedInitialCardEnv textMessage busyBridge) = None
           \<and> runningTasks (snd (handleMessage failedInitialCardEnv textMessage busyBridge))
               = runningTasks busyBridge
           \<and> timers (snd (handleMessage failedInitialCardEnv textMessage busyBridge))
               = timers busyBridge"
    by simp
  from n w r 1 2 show ?thesis by simp
qed

subsection \<open>Cleanup on termination\<close>

lemmas br_defs = executeQuery_def earlyExit_def finallyCleanup_def registerTask_def
  clearTimeout_def sendCard_def updateCard_def newBridge_def getSession_def
  newSessionManager_def truthy_def imagePrefix_def newStreamProcessor_def

text \<open>
  C5. The claim: on every termination path of \<^verbatim>\<open>executeQuery\<close>, the early exit when the
  initial card cannot be sent among them, the running task is removed, the timeout is
  cleared and a staged input image is deleted. The \<^verbatim>\<open>finally\<close> block does the three; the
  early exit returns before the \<^verbatim>\<open>try\<close> and does the first two only. For a message with
  an image that was downloaded, when \<^verbatim>\<open>sendCard\<close> returns no message id: no error is
  thrown, the task is removed, no timeout stays armed, and the image file is still on
  disk. When the card is sent and the stream ends at once, the file is gone. And when
  \<^verbatim>\<open>fs.mkdirSync\<close> throws for that message, which is before the \<^verbatim>\<open>try\<close> as well, the
  error leaves \<^verbatim>\<open>executeQuery\<close> with the task still registered and its timeout still
  armed.
\<close>

theorem early_exit_leaves_staged_image:
  "fst (executeQuery failedInitialCardEnv imageMessage (newBridge (Some ''/w''))) = None
   \<and> runningTasks (snd (executeQuery failedInitialCardEnv imageMessage
        (newBridge (Some ''/w'')))) ''u1'' = None
   \<and> timers (snd (executeQuery failedInitialCardEnv imageMessage (newBridge (Some ''/w''))))
       = []
   \<and> ''/tmp/feishu-claudecode/img-1.png''
       \<in> files (snd (executeQuery failedInitialCardEnv imageMessage (newBridge (Some ''/w''))))
   \<and> ''/tmp/feishu-claudecode/img-1.png''
       \<notin> files (snd (executeQuery (failedInitialCardEnv\<lparr> initialMessageId := Some ''om_1'' \<rparr>)
                  imageMessage (newBridge (Some ''/w''))))
   \<and> fst (executeQuery mkdirFailsEnv imageMessage (newBridge (Some ''/w'')))
       = Some ''ENOTDIR: not a directory, mkdir''
   \<and> runningTasks (snd (executeQuery mkdirFailsEnv imageMessage (newBridge (Some ''/w''))))
        ''u1'' = Some \<lparr> abortController = 0, startTime = 0 \<rparr>
   \<and> timers (snd (executeQuery mkdirFailsEnv imageMessage (newBridge (Some ''/w''))))
       = [(1, TASK_TIMEOUT_MS, 0)]"
proof -
  have early: "fst (executeQuery failedInitialCardEnv imageMessage (newBridge (Some ''/w'')))
       = None
    \<and> runningTasks (snd (executeQuery failedInitialCardEnv imageMessage
        (newBridge (Some ''/w'')))) ''u1'' = None
    \<and> timers (snd (executeQuery failedInitialCardEnv imageMessage (newBridge (Some ''/w''))))
       = []
    \<and> ''/tmp/feishu-claudecode/img-1.png''
       \<in> files (snd (executeQuery failedInitialCardEnv imageMessage (newBridge (Some ''/w''))))"
    by (simp add: br_defs failedInitialCardEnv_def imageMessage_def Let_def)
  have sent: "''/tmp/feishu-claudecode/img-1.png''
       \<notin> files (snd (executeQuery (failedInitialCardEnv\<lparr> initialMessageId := Some ''om_1'' \<rparr>)
                  imageMessage (newBridge (Some ''/w''))))"
    by (simp add: br_defs failedInitialCardEnv_def imageMessage_def Let_def)
  have mkdir: "fst (executeQuery mkdirFailsEnv imageMessage (newBridge (Some ''/w'')))
       = Some ''ENOTDIR: not a directory, mkdir''
    \<and> runningTasks (snd (executeQuery mkdirFailsEnv imageMessage (newBridge (Some ''/w''))))
        ''u1'' = Some \<lparr> abortController = 0, startTime = 0 \<rparr>
    \<and> timers (snd (executeQuery mkdirFailsEnv imageMessage (newBridge (Some ''/w''))))
       = [(1, TASK_TIMEOUT_MS, 0)]"
    by (simp add: br_defs mkdirFailsEnv_def failedInitialCardEnv_def imageMessage_def Let_def)
  from early sent mkdir show ?thesis by blast
qed

end
